theory Spec2Isabelle
  imports Main "HOL-Library.Word"
begin

unbundle bit_operations_syntax

section \<open>Common things\<close>

text \<open>
  The status codes of \<^verbatim>\<open>stash.h\<close>. The C code tests \<^verbatim>\<open>ret < 0\<close> to recognise an
  error; \<open>status_code\<close> gives the integer of each constant.
\<close>

datatype status =
    STASH_ERROR_KEY_NOT_FOUND
  | STASH_ERROR_OUT_OF_BOUNDS
  | STASH_ERROR_OUT_OF_MEMORY
  | STASH_SUCCESS
  | STASH_EMPTY
  | STASH_KEY_EXISTS

fun status_code :: "status \<Rightarrow> int" where
  "status_code STASH_ERROR_KEY_NOT_FOUND = -3"
| "status_code STASH_ERROR_OUT_OF_BOUNDS = -2"
| "status_code STASH_ERROR_OUT_OF_MEMORY = -1"
| "status_code STASH_SUCCESS = 0"
| "status_code STASH_EMPTY = 1"
| "status_code STASH_KEY_EXISTS = 2"

text \<open>
  Memory model. A block obtained from the allocator is a list of slots, one slot per
  element of \<open>elem_size\<close> bytes; \<open>None\<close> is the null pointer. Sizes (\<^verbatim>\<open>size_t\<close>) are
  natural numbers: the model covers blocks that fit the address space, where the size
  arithmetic of the code does not wrap.

  The allocator is an argument of every function that may call it: \<open>None\<close> means the
  call returns NULL, \<open>Some g\<close> means it succeeds and an uninitialised slot \<open>i\<close> of the
  new block reads as \<open>g i\<close>.

  A function whose C code may dereference NULL or access a block out of its bounds
  returns an \<open>option\<close>: \<open>None\<close> is undefined behaviour.
\<close>

type_synonym 'a allocator = "(nat \<Rightarrow> 'a) option"

record 'a stash_arr =
  data :: "'a list option"
  count :: nat
  capacity :: nat
  elem_size :: nat

text \<open>\<^verbatim>\<open>stash_arr array = { 0 }\<close>\<close>

definition zero_arr :: "'a stash_arr" where
  "zero_arr = \<lparr>data = None, count = 0, capacity = 0, elem_size = 0\<rparr>"

text \<open>
  \<^verbatim>\<open>memmove(data + dst * elem_size, data + src * elem_size, n * elem_size)\<close> on the
  block of an array; nothing moves when the byte count is 0.
\<close>

definition arr_memmove :: "'a stash_arr \<Rightarrow> nat \<Rightarrow> nat \<Rightarrow> nat \<Rightarrow> 'a stash_arr option" where
  "arr_memmove a dst src n =
     (if n * elem_size a = 0 then Some a
      else case data a of
        None \<Rightarrow> None
      | Some buf \<Rightarrow>
          if src + n \<le> length buf \<and> dst + n \<le> length buf
          then Some (a\<lparr>data := Some (take dst buf @ take n (drop src buf) @ drop (dst + n) buf)\<rparr>)
          else None)"

text \<open>
  \<^verbatim>\<open>memcpy(data + dst * elem_size, src, n * elem_size)\<close> from a caller's buffer \<open>src\<close>
  holding at least \<open>n\<close> elements.
\<close>

definition arr_memcpy_in :: "'a stash_arr \<Rightarrow> nat \<Rightarrow> 'a list \<Rightarrow> nat \<Rightarrow> 'a stash_arr option" where
  "arr_memcpy_in a dst src n =
     (if n * elem_size a = 0 then Some a
      else case data a of
        None \<Rightarrow> None
      | Some buf \<Rightarrow>
          if n \<le> length src \<and> dst + n \<le> length buf
          then Some (a\<lparr>data := Some (take dst buf @ take n src @ drop (dst + n) buf)\<rparr>)
          else None)"

text \<open>Writing one element of \<open>elem_size\<close> bytes into slot \<open>i\<close>.\<close>

definition slot_write :: "'a stash_arr \<Rightarrow> nat \<Rightarrow> 'a \<Rightarrow> 'a stash_arr option" where
  "slot_write a i v = arr_memcpy_in a i [v] 1"


section \<open>Utils\<close>

text \<open>
  \<^verbatim>\<open>u_stash_next_po2_u64\<close> on \<^verbatim>\<open>int64_t\<close>, for the non-negative arguments the library
  passes; \<^verbatim>\<open>>>\<close> is \<open>drop_bit\<close> and \<^verbatim>\<open><< 1\<close> is \<open>push_bit 1\<close>.
\<close>

definition u_stash_next_po2_u64 :: "int \<Rightarrow> int" where
  "u_stash_next_po2_u64 x =
     (if x = 0 then 1
      else if x AND (x - 1) = 0 then push_bit 1 x
      else
        let x1 = x - 1;
            x2 = x1 OR drop_bit 1 x1;
            x3 = x2 OR drop_bit 2 x2;
            x4 = x3 OR drop_bit 4 x3;
            x5 = x4 OR drop_bit 8 x4;
            x6 = x5 OR drop_bit 16 x5;
            x7 = x6 OR drop_bit 32 x6
        in x7 + 1)"

text \<open>The call \<^verbatim>\<open>size_t newSize = u_stash_next_po2_u64(n)\<close> with \<^verbatim>\<open>size_t n\<close>.\<close>

definition next_po2 :: "nat \<Rightarrow> nat" where
  "next_po2 n = nat (u_stash_next_po2_u64 (int n))"

section \<open>Array\<close>

definition stash_arr_create :: "'a allocator \<Rightarrow> nat \<Rightarrow> nat \<Rightarrow> 'a stash_arr" where
  "stash_arr_create alloc cap esz =
     (if cap = 0 \<or> esz = 0 then zero_arr
      else case alloc of
        None \<Rightarrow> zero_arr
      | Some g \<Rightarrow> \<lparr>data = Some (map g [0..<cap]), count = 0, capacity = cap, elem_size = esz\<rparr>)"

definition stash_arr_is_valid :: "'a stash_arr \<Rightarrow> bool" where
  "stash_arr_is_valid a \<longleftrightarrow> data a \<noteq> None \<and> capacity a > 0 \<and> elem_size a > 0"

text \<open>
  \<^verbatim>\<open>realloc(data, n * elem_size)\<close> when it succeeds: the old contents up to the new size,
  then uninitialised slots.
\<close>

definition realloc_block :: "(nat \<Rightarrow> 'a) \<Rightarrow> 'a list option \<Rightarrow> nat \<Rightarrow> 'a list" where
  "realloc_block g d n =
     (case d of
        None \<Rightarrow> map g [0..<n]
      | Some buf \<Rightarrow> take n buf @ map g [length buf..<n])"

definition stash_arr_reserve :: "'a allocator \<Rightarrow> 'a stash_arr \<Rightarrow> nat \<Rightarrow> status \<times> 'a stash_arr" where
  "stash_arr_reserve alloc a newCapacity =
     (if capacity a \<ge> newCapacity then (STASH_SUCCESS, a)
      else case alloc of
        None \<Rightarrow> (STASH_ERROR_OUT_OF_MEMORY, a)
      | Some g \<Rightarrow>
          (STASH_SUCCESS,
           a\<lparr>data := Some (realloc_block g (data a) newCapacity), capacity := newCapacity\<rparr>))"

text \<open>
  \<^verbatim>\<open>stash_arr_insert\<close>. The variable \<open>newSize\<close> is overwritten by the rounded capacity
  when the array grows, and the count is set from it at the end.
\<close>

definition stash_arr_insert ::
  "'a allocator \<Rightarrow> 'a stash_arr \<Rightarrow> nat \<Rightarrow> 'a list \<Rightarrow> nat \<Rightarrow> (status \<times> 'a stash_arr) option" where
  "stash_arr_insert alloc a index elements n =
     (if index > count a then Some (STASH_ERROR_OUT_OF_BOUNDS, a)
      else
        let newSize0 = count a + n;
            (newSize, ret, a1) =
              (if newSize0 > capacity a
               then let ns = next_po2 newSize0;
                        (r, a') = stash_arr_reserve alloc a ns
                    in (ns, r, a')
               else (newSize0, STASH_SUCCESS, a))
        in if status_code ret < 0 then Some (ret, a1)
           else case arr_memmove a1 (index + n) index (count a1 - index) of
             None \<Rightarrow> None
           | Some a2 \<Rightarrow>
               (case arr_memcpy_in a2 index elements n of
                  None \<Rightarrow> None
                | Some a3 \<Rightarrow> Some (STASH_SUCCESS, a3\<lparr>count := newSize\<rparr>)))"

text \<open>
  \<^verbatim>\<open>stash_arr_push_at\<close>; \<open>element = None\<close> is a NULL element, for which the slot is
  zero-filled (\<open>z\<close> is the element whose bytes are all 0). Destination and source of the
  \<^verbatim>\<open>memmove\<close> are both \<^verbatim>\<open>data + index * elem_size\<close>.
\<close>

definition stash_arr_push_at ::
  "'a \<Rightarrow> 'a allocator \<Rightarrow> 'a stash_arr \<Rightarrow> nat \<Rightarrow> 'a option \<Rightarrow> (status \<times> 'a stash_arr) option" where
  "stash_arr_push_at z alloc a index element =
     (if index \<ge> count a then Some (STASH_ERROR_OUT_OF_BOUNDS, a)
      else
        let (ret, a1) =
              (if count a \<ge> capacity a
               then stash_arr_reserve alloc a (next_po2 (count a + 1))
               else (STASH_SUCCESS, a))
        in if status_code ret < 0 then Some (ret, a1)
           else case arr_memmove a1 index index (count a1 - index) of
             None \<Rightarrow> None
           | Some a2 \<Rightarrow>
               (case slot_write a2 index (case element of Some e \<Rightarrow> e | None \<Rightarrow> z) of
                  None \<Rightarrow> None
                | Some a3 \<Rightarrow> Some (STASH_SUCCESS, a3\<lparr>count := count a3 + 1\<rparr>)))"

text \<open>
  \<^verbatim>\<open>stash_arr_copy\<close>. The \<^verbatim>\<open>memcpy\<close> reads \<open>count\<close> elements of the source block.
\<close>

definition stash_arr_copy :: "'a allocator \<Rightarrow> 'a stash_arr \<Rightarrow> 'a stash_arr option" where
  "stash_arr_copy alloc src =
     (let sz = count src * elem_size src
      in if sz = 0 then Some zero_arr
         else case alloc of
           None \<Rightarrow> Some zero_arr
         | Some g \<Rightarrow>
             (case data src of
                None \<Rightarrow> None
              | Some buf \<Rightarrow>
                  if count src \<le> length buf
                  then Some \<lparr>data = Some (take (count src) buf), count = count src,
                              capacity = count src, elem_size = elem_size src\<rparr>
                  else None))"

text \<open>
  \<^verbatim>\<open>stash_arr_compare\<close>: \<^verbatim>\<open>memcmp\<close> over \<open>count * elem_size\<close> bytes, which compares
  nothing (and answers 0) when that is 0.
\<close>

definition stash_arr_compare :: "'a stash_arr \<Rightarrow> 'a stash_arr \<Rightarrow> bool option" where
  "stash_arr_compare a b =
     (if count a \<noteq> count b \<or> elem_size a \<noteq> elem_size b then Some False
      else if count a * elem_size a = 0 then Some True
      else case (data a, data b) of
        (Some x, Some y) \<Rightarrow>
          if count a \<le> length x \<and> count a \<le> length y
          then Some (take (count a) x = take (count a) y)
          else None
      | _ \<Rightarrow> None)"

text \<open>
  \<^verbatim>\<open>stash_arr_at\<close>: NULL (\<open>None\<close>) when the index is not below the count, else the
  pointer to the slot, which we identify with the slot's index.
\<close>

definition stash_arr_at :: "'a stash_arr \<Rightarrow> nat \<Rightarrow> nat option" where
  "stash_arr_at a index = (if index \<ge> count a then None else Some index)"

text \<open>Dereferencing a pointer to a slot; \<open>None\<close> when the block does not hold that slot.\<close>

definition slot_deref :: "'a stash_arr \<Rightarrow> nat \<Rightarrow> 'a option" where
  "slot_deref a p =
     (case data a of
        None \<Rightarrow> None
      | Some buf \<Rightarrow> if p < length buf then Some (buf ! p) else None)"

text \<open>Assigning through a pointer to a slot (\<^verbatim>\<open>entry->field = ...\<close>).\<close>

definition slot_assign :: "'a stash_arr \<Rightarrow> nat \<Rightarrow> 'a \<Rightarrow> 'a stash_arr option" where
  "slot_assign a p v =
     (case data a of
        None \<Rightarrow> None
      | Some buf \<Rightarrow> if p < length buf then Some (a\<lparr>data := Some (buf[p := v])\<rparr>) else None)"

text \<open>
  \<^verbatim>\<open>stash_arr_resize\<close>, its argument \<^verbatim>\<open>size\<close> being \<open>sz\<close>; the loop over
  \<open>[count, sz)\<close> copies the element into each new slot, and a NULL element zero-fills
  them instead.
\<close>

definition stash_arr_resize ::
  "'a \<Rightarrow> 'a allocator \<Rightarrow> 'a stash_arr \<Rightarrow> nat \<Rightarrow> 'a option \<Rightarrow> (status \<times> 'a stash_arr) option" where
  "stash_arr_resize z alloc a sz element =
     (if sz \<le> count a then Some (STASH_SUCCESS, a\<lparr>count := sz\<rparr>)
      else
        let (ret, a1) =
              (if sz \<ge> capacity a then stash_arr_reserve alloc a sz
               else (STASH_SUCCESS, a))
        in if status_code ret < 0 then Some (ret, a1)
           else case fold (\<lambda>i acc. case acc of None \<Rightarrow> None
                                   | Some b \<Rightarrow> slot_write b i (case element of Some e \<Rightarrow> e | None \<Rightarrow> z))
                     [count a1..<sz] (Some a1) of
             None \<Rightarrow> None
           | Some a2 \<Rightarrow> Some (STASH_SUCCESS, a2\<lparr>count := sz\<rparr>))"





subsection \<open>Iterators of the array\<close>

text \<open>
  An iterator holds three addresses; 0 is NULL. The array functions that build or move
  an iterator take the address \<open>base\<close> held in \<^verbatim>\<open>array->data\<close>; element \<open>i\<close> lives at
  \<open>base + i * elem_size\<close>. Pointer arithmetic and comparisons are those of the addresses.
\<close>

record stash_it =
  curr :: nat
  prev :: nat
  "next" :: nat

definition zero_it :: stash_it where
  "zero_it = \<lparr>curr = 0, prev = 0, next = 0\<rparr>"

definition stash_arr_end :: "nat \<Rightarrow> 'a stash_arr \<Rightarrow> stash_it" where
  "stash_arr_end base a =
     (if count a = 0 then zero_it
      else
        let it = zero_it\<lparr>curr := base + (count a - 1) * elem_size a\<rparr>
        in if count a = 1 then it
           else it\<lparr>prev := curr it - elem_size a\<rparr>)"

text \<open>
  \<^verbatim>\<open>stash_arr_next\<close>, called with an array and an iterator (neither pointer is
  NULL). The branch for \<^verbatim>\<open>it->next == NULL\<close> does not return: the statements after
  it run as well.
\<close>

definition stash_arr_next :: "nat \<Rightarrow> 'a stash_arr \<Rightarrow> stash_it \<Rightarrow> stash_it" where
  "stash_arr_next base a it =
     (let it1 = (if next it = 0 then it\<lparr>prev := curr it, curr := 0\<rparr> else it);
          p = curr it1;
          it2 = it1\<lparr>curr := next it1, prev := p\<rparr>;
          it3 = it2\<lparr>next := curr it2 + elem_size a\<rparr>
      in if next it3 \<ge> base + count a * elem_size a then it3\<lparr>next := 0\<rparr> else it3)"

section \<open>Table\<close>

text \<open>
  A bucket entry. \<open>value\<close> is the pointer to the separately allocated copy of the value:
  \<open>None\<close> is NULL, \<open>Some v\<close> a buffer holding \<open>v\<close>.
\<close>

record 'v stash_umap_entry =
  key :: "32 word"
  "value" :: "'v option"
  occupied :: bool

text \<open>
  The table. Its field \<^verbatim>\<open>count\<close> is named \<open>ucount\<close> here, the name \<open>count\<close> being the
  array's.
\<close>

record 'v stash_umap =
  buckets :: "'v stash_umap_entry stash_arr"
  ucount :: nat
  value_size :: nat

text \<open>\<^verbatim>\<open>stash_umap_entry default_entry = { 0 }\<close>\<close>

definition default_entry :: "'v stash_umap_entry" where
  "default_entry = \<lparr>key = 0, value = None, occupied = False\<rparr>"

text \<open>\<^verbatim>\<open>sizeof(stash_umap_entry)\<close>, with 8-byte pointers.\<close>

definition sizeof_entry :: nat where
  "sizeof_entry = 24"

definition u_stash_umap_hash_u32 :: "32 word \<Rightarrow> nat \<Rightarrow> nat" where
  "u_stash_umap_hash_u32 k cap =
     (let k1 = k XOR drop_bit 16 k;
          k2 = k1 * 0x85ebca6b;
          k3 = k2 XOR drop_bit 13 k2;
          k4 = k3 * 0xc2b2ae35;
          k5 = k4 XOR drop_bit 16 k4
      in nat (uint k5 mod int cap))"

definition stash_umap_is_valid :: "'v stash_umap \<Rightarrow> bool" where
  "stash_umap_is_valid table \<longleftrightarrow> stash_arr_is_valid (buckets table)"



text \<open>The conversion \<^verbatim>\<open>(int)index\<close> of a \<^verbatim>\<open>size_t\<close>: the low 32 bits, read as signed.\<close>

definition int_of_size :: "nat \<Rightarrow> int" where
  "int_of_size n =
     (let r = int n mod 2 ^ 32 in if r < 2 ^ 31 then r else r - 2 ^ 32)"

text \<open>The conversion of an \<^verbatim>\<open>int\<close> to \<^verbatim>\<open>size_t\<close> (64 bits).\<close>

definition size_of_int :: "int \<Rightarrow> nat" where
  "size_of_int i = nat (i mod 2 ^ 64)"


text \<open>
  The loop of \<^verbatim>\<open>u_stash_find_free_slot\<close>, with fuel in the same way; the result is
  the \<^verbatim>\<open>int\<close> it returns.
\<close>

fun find_free_slot_loop ::
  "nat \<Rightarrow> 'v stash_umap_entry stash_arr \<Rightarrow> 32 word \<Rightarrow> nat \<Rightarrow> nat \<Rightarrow> nat \<Rightarrow> int option" where
  "find_free_slot_loop 0 b k cap original_index index = None"
| "find_free_slot_loop (Suc fuel) b k cap original_index index =
     (case stash_arr_at b index of
        None \<Rightarrow>
          (if (index + 1) mod cap \<noteq> original_index
           then find_free_slot_loop fuel b k cap original_index ((index + 1) mod cap)
           else Some (-1))
      | Some p \<Rightarrow>
          (case slot_deref b p of
             None \<Rightarrow> None
           | Some entry \<Rightarrow>
               if \<not> occupied entry then Some (int_of_size index)
               else if key entry = k then Some (-2)
               else if (index + 1) mod cap \<noteq> original_index
               then find_free_slot_loop fuel b k cap original_index ((index + 1) mod cap)
               else Some (-1)))"

definition u_stash_find_free_slot :: "'v stash_umap \<Rightarrow> 32 word \<Rightarrow> int option" where
  "u_stash_find_free_slot table k =
     (if \<not> stash_umap_is_valid table \<or> count (buckets table) = 0 then Some (-1)
      else
        let cap = count (buckets table);
            index = u_stash_umap_hash_u32 k cap
        in find_free_slot_loop cap (buckets table) k cap index index)"

text \<open>
  \<^verbatim>\<open>stash_umap_create\<close>. The result of \<^verbatim>\<open>stash_arr_resize\<close> is not looked at; its
  array is.
\<close>

definition stash_umap_create ::
  "'v stash_umap_entry allocator \<Rightarrow> 'v stash_umap_entry allocator \<Rightarrow> nat \<Rightarrow> nat
     \<Rightarrow> 'v stash_umap option" where
  "stash_umap_create alloc realloc initialCapacity vsize =
     (let actual_capacity = (if initialCapacity > 0 then initialCapacity else 16);
          b = stash_arr_create alloc actual_capacity sizeof_entry
      in if stash_arr_is_valid b
         then case stash_arr_resize default_entry realloc b initialCapacity (Some default_entry) of
           None \<Rightarrow> None
         | Some (ret, b') \<Rightarrow> Some \<lparr>buckets = b', ucount = 0, value_size = vsize\<rparr>
         else Some \<lparr>buckets = b, ucount = 0, value_size = vsize\<rparr>)"

text \<open>
  \<^verbatim>\<open>stash_umap_insert\<close>. \<open>val = None\<close> is a NULL \<^verbatim>\<open>value\<close>; \<open>realloc\<close> is the allocator
  call of the growth step, whose result the code ignores, and \<open>malloc_ok\<close> tells whether
  the allocation of the value's copy succeeds.
\<close>

definition stash_umap_insert ::
  "'v stash_umap_entry allocator \<Rightarrow> bool \<Rightarrow> 'v stash_umap \<Rightarrow> 32 word \<Rightarrow> 'v option
     \<Rightarrow> (status \<times> 'v stash_umap) option" where
  "stash_umap_insert realloc malloc_ok table k val =
     (if \<not> stash_umap_is_valid table \<or> val = None then Some (STASH_ERROR_OUT_OF_MEMORY, table)
      else
        let table1 =
              (if count (buckets table) + 1 \<ge> capacity (buckets table)
               then table\<lparr>buckets := snd (stash_arr_reserve realloc (buckets table)
                                             (next_po2 (count (buckets table) + 1)))\<rparr>
               else table)
        in case u_stash_find_free_slot table1 k of
             None \<Rightarrow> None
           | Some slot_index \<Rightarrow>
               if slot_index = -2 then Some (STASH_KEY_EXISTS, table1)
               else if slot_index = -1 then Some (STASH_ERROR_OUT_OF_MEMORY, table1)
               else if \<not> malloc_ok then Some (STASH_ERROR_OUT_OF_MEMORY, table1)
               else case stash_arr_at (buckets table1) (size_of_int slot_index) of
                 None \<Rightarrow> None
               | Some p \<Rightarrow>
                   (case slot_deref (buckets table1) p of
                      None \<Rightarrow> None
                    | Some entry \<Rightarrow>
                        (case slot_assign (buckets table1) p
                                (entry\<lparr>key := k, occupied := True, value := val\<rparr>) of
                           None \<Rightarrow> None
                         | Some b' \<Rightarrow>
                             Some (STASH_SUCCESS,
                                   table1\<lparr>buckets := b', ucount := ucount table1 + 1\<rparr>))))"




section \<open>Registry\<close>

text \<open>
  The registry. Its field \<^verbatim>\<open>elem_size\<close> is named \<open>relem_size\<close> here, the name
  \<open>elem_size\<close> being the array's. Identifiers are \<^verbatim>\<open>uint32_t\<close>; the
  variable \<^verbatim>\<open>id\<close> of the code is \<open>ident\<close>.
\<close>

record 'e stash_reg =
  elements :: "'e stash_arr"
  valid_flags :: "bool stash_arr"
  free_ids :: "32 word stash_arr"
  next_id :: "32 word"
  relem_size :: nat







section \<open>Notions used in the statements and proofs\<close>
























section \<open>Properties of the array\<close>

text \<open>
  C3. \<^verbatim>\<open>push_at(i, e)\<close> with \<open>i < count\<close> is claimed to shift the slots \<open>[i, count)\<close> right
  by one and to write \<open>e\<close> into slot \<open>i\<close>. On the array \<open>[10, 20, 30]\<close> of capacity 4
  (fourth slot holding 77), \<^verbatim>\<open>push_at(1, 99)\<close> moves nothing: it overwrites slot 1, loses
  the 20, and leaves in slot 3 what the block held there, giving \<open>[10, 99, 30, 77]\<close> with
  count 4 where the claim expects \<open>[10, 99, 20, 30]\<close>.
\<close>

theorem push_at_overwrites_example:
  "stash_arr_push_at (0::nat) None
     \<lparr>data = Some [10, 20, 30, 77], count = 3, capacity = 4, elem_size = 4\<rparr> 1 (Some 99)
   = Some (STASH_SUCCESS,
       \<lparr>data = Some [10, 99, 30, 77], count = 4, capacity = 4, elem_size = 4\<rparr>)"
  by (simp add: stash_arr_push_at_def arr_memmove_def slot_write_def arr_memcpy_in_def)

text \<open>
  C2. \<^verbatim>\<open>insert(i, es, n)\<close> with \<open>i \<le> count\<close> is claimed to return OK with the count
  increased by \<open>n\<close>. Appending one element to the full array \<open>[10, 20]\<close> (capacity 2)
  returns OK, but the count becomes 4, the capacity the array was grown to, not 3.
\<close>

theorem insert_count_example:
  "stash_arr_insert (Some (\<lambda>_. 0::nat))
     \<lparr>data = Some [10, 20], count = 2, capacity = 2, elem_size = 4\<rparr> 2 [30] 1
   = Some (STASH_SUCCESS,
       \<lparr>data = Some [10, 20, 30, 0], count = 4, capacity = 4, elem_size = 4\<rparr>)"
  by (simp add: stash_arr_insert_def next_po2_def u_stash_next_po2_u64_def
      stash_arr_reserve_def realloc_block_def arr_memmove_def arr_memcpy_in_def Let_def
      upt_rec)

text \<open>
  C6. An iterator on the last of three elements (\<open>next\<close> absent) is claimed to become the
  post-end sentinel whose \<open>previous\<close> still refers to the last element. With the block at
  address 4096 and elements of 4 bytes, \<^verbatim>\<open>stash_arr_next\<close> leaves \<open>current\<close> absent but
  also clears \<open>previous\<close>, and sets \<open>next\<close> to the address \<^verbatim>\<open>NULL + elem_size\<close>.
\<close>

theorem arr_next_from_last_example:
  "stash_arr_end 4096 \<lparr>data = Some [10, 20, 30::nat], count = 3, capacity = 4, elem_size = 4\<rparr>
     = \<lparr>curr = 4104, prev = 4100, next = 0\<rparr>
   \<and> stash_arr_next 4096 \<lparr>data = Some [10, 20, 30::nat], count = 3, capacity = 4, elem_size = 4\<rparr>
       \<lparr>curr = 4104, prev = 4100, next = 0\<rparr>
     = \<lparr>curr = 0, prev = 0, next = 4\<rparr>"
  by (simp add: stash_arr_end_def stash_arr_next_def zero_it_def Let_def)

text \<open>
  C7, as stated: \<^verbatim>\<open>compare(copy(src), src)\<close> is true for every array. For an empty
  source with elements of 4 bytes the copy is the zero record, whose \<open>elem_size\<close> is 0,
  and the comparison answers false.
\<close>

theorem copy_compare_empty_counterexample:
  "stash_arr_copy (Some (\<lambda>_. 0))
       \<lparr>data = Some [0, 0, 0, 0::nat], count = 0, capacity = 4, elem_size = 4\<rparr>
     = Some zero_arr
   \<and> stash_arr_compare zero_arr
       \<lparr>data = Some [0, 0, 0, 0::nat], count = 0, capacity = 4, elem_size = 4\<rparr>
     = Some False"
  by (simp add: stash_arr_copy_def stash_arr_compare_def zero_arr_def)

text \<open>
  C7, amended: for a source holding at least one byte of elements (\<open>count * elem_size > 0\<close>)
  whose block contains its \<open>count\<close> elements, when the allocation succeeds, the copy has
  \<open>count = capacity = count src\<close>, the element size of the source and the same
  elements, and \<^verbatim>\<open>compare(copy(src), src)\<close> is true.
\<close>

theorem copy_compare_nonempty:
  assumes "count src * elem_size src > 0"
    and "data src = Some buf"
    and "count src \<le> length buf"
  shows "\<exists>c. stash_arr_copy (Some g) src = Some c
           \<and> stash_arr_compare c src = Some True
           \<and> count c = count src \<and> capacity c = count src
           \<and> elem_size c = elem_size src
           \<and> data c = Some (take (count src) buf)"
  using assms by (simp add: stash_arr_copy_def stash_arr_compare_def)

theorem copy_compare_nonempty_witness:
  "\<exists>c. stash_arr_copy (Some (\<lambda>_. 0)) \<lparr>data = Some [10, 20, 30, 77::nat], count = 3, capacity = 4, elem_size = 4\<rparr> = Some c
     \<and> stash_arr_compare c \<lparr>data = Some [10, 20, 30, 77], count = 3, capacity = 4, elem_size = 4\<rparr> = Some True
     \<and> count c = 3 \<and> capacity c = 3 \<and> elem_size c = 4 \<and> data c = Some [10, 20, 30]"
  using copy_compare_nonempty [of "\<lparr>data = Some [10, 20, 30, 77::nat], count = 3, capacity = 4, elem_size = 4\<rparr>"
      "[10, 20, 30, 77]" "\<lambda>_. 0"]
  by simp

section \<open>Properties of the table\<close>



















lemma reserve_count [simp]: "count (snd (stash_arr_reserve r a c)) = count a"
  by (simp add: stash_arr_reserve_def split: option.splits)

lemma reserve_elem_size [simp]: "elem_size (snd (stash_arr_reserve r a c)) = elem_size a"
  by (simp add: stash_arr_reserve_def split: option.splits)





lemma size_of_int_nat [simp]: "size_of_int (int n) = n mod 2 ^ 64"
  by (simp add: size_of_int_def nat_mod_distrib flip: zmod_int)






















text \<open>
  C10. A table created with \<open>initialCapacity = 0\<close>, the allocation succeeding, is valid
  with a bucket array of capacity 16 and count 0, and every insert into it, of any key
  and value and whatever the allocator does, returns OutOfMemory and leaves the table as
  it is: so does every later insert, and the table never holds an element.
\<close>

theorem umap_create_zero_capacity:
  "\<exists>m. stash_umap_create (Some g) r 0 vs = Some m
      \<and> stash_umap_is_valid m \<and> capacity (buckets m) = 16
      \<and> count (buckets m) = 0 \<and> ucount m = 0
      \<and> (\<forall>r' ok k val. stash_umap_insert r' ok m k val = Some (STASH_ERROR_OUT_OF_MEMORY, m))"
proof -
  let ?b = "\<lparr>data = Some (map g [0..<16]), count = 0, capacity = 16, elem_size = sizeof_entry\<rparr>"
  let ?m = "\<lparr>buckets = ?b, ucount = 0, value_size = vs\<rparr>"
  have b: "stash_arr_create (Some g) 16 sizeof_entry = ?b"
    by (simp add: stash_arr_create_def sizeof_entry_def)
  have v: "stash_arr_is_valid ?b"
    by (simp add: stash_arr_is_valid_def sizeof_entry_def)
  have c: "stash_umap_create (Some g) r 0 vs = Some ?m"
    unfolding stash_umap_create_def by (simp add: b v stash_arr_resize_def)
  have i: "stash_umap_insert r' ok ?m k val = Some (STASH_ERROR_OUT_OF_MEMORY, ?m)"
    for r' ok k val
    using v by (simp add: stash_umap_insert_def stash_umap_is_valid_def
        u_stash_find_free_slot_def)
  from c v i show ?thesis
    by (simp add: stash_umap_is_valid_def)
qed


theorem umap_create_zero_capacity_witness:
  "\<exists>m :: nat stash_umap. stash_umap_create (Some (\<lambda>_. default_entry)) None 0 8 = Some m
      \<and> stash_umap_is_valid m \<and> capacity (buckets m) = 16
      \<and> count (buckets m) = 0 \<and> ucount m = 0
      \<and> (\<forall>r' ok k val. stash_umap_insert r' ok m k val = Some (STASH_ERROR_OUT_OF_MEMORY, m))"
  by (rule umap_create_zero_capacity)

section \<open>Properties of the registry\<close>

































end
